theory Spec2Isabelle
  imports Main
begin

section \<open>Python values\<close>

text \<open>
  A Python \<open>str\<close> is a sequence of Unicode code points, and \<open>len\<close> counts code
  points, so a string is a list of code point numbers. Source literals are ASCII and are
  written through \<open>ustr\<close>.
\<close>

type_synonym ustring = "nat list"

definition ustr :: "string \<Rightarrow> ustring" where
  "ustr s = map of_char s"

text \<open>
  The value \<open>r.json()\<close> yields, and every value typed \<open>Any\<close> in the source. The type
  \<open>'f\<close> stands for Python's \<open>float\<close>. A \<open>dict\<close> is a list of key/value pairs, looked
  up from the front.
\<close>

datatype 'f json =
    JNull
  | JBool bool
  | JInt int
  | JFloat 'f
  | JStr ustring
  | JList "'f json list"
  | JDict "(ustring \<times> 'f json) list"

type_synonym 'f dict = "(ustring \<times> 'f json) list"

text \<open>The exceptions the tool handlers can raise on a value of the wrong type.\<close>

datatype py_error = AttributeError | TypeError | KeyError

text \<open>
  The builtins whose results depend on floating point or on the Unicode tables. They are
  parameters of the model:
  \<^item> \<open>float_of_str s\<close> is \<open>float(s)\<close> on a \<open>str\<close>, \<open>Inl m\<close> when it raises a
    \<open>ValueError\<close> whose text is \<open>m\<close>;
  \<^item> \<open>float_of_int i\<close> is \<open>float(i)\<close> on an \<open>int\<close>, \<open>None\<close> when it raises
    \<open>OverflowError\<close>;
  \<^item> \<open>float_str x\<close> is \<open>str(x)\<close> and \<open>float_bool x\<close> is \<open>bool(x)\<close> on a \<open>float\<close>;
  \<^item> \<open>container_str v\<close> is \<open>str(v)\<close> on a \<open>list\<close> or a \<open>dict\<close>;
  \<^item> \<open>unicode_lower\<close> and \<open>unicode_upper\<close> are \<open>str.lower\<close> and \<open>str.upper\<close> on a
    string that has a code point outside ASCII.
\<close>

record 'f builtins =
  float_of_str :: "ustring \<Rightarrow> ustring + 'f"
  float_of_int :: "int \<Rightarrow> 'f option"
  float_str :: "'f \<Rightarrow> ustring"
  float_bool :: "'f \<Rightarrow> bool"
  container_str :: "'f json \<Rightarrow> ustring"
  unicode_lower :: "ustring \<Rightarrow> ustring"
  unicode_upper :: "ustring \<Rightarrow> ustring"

subsection \<open>Strings\<close>

definition is_ascii :: "ustring \<Rightarrow> bool" where
  "is_ascii s = list_all (\<lambda>c. c < 128) s"

definition ascii_lower :: "nat \<Rightarrow> nat" where
  "ascii_lower c = (if 65 \<le> c \<and> c \<le> 90 then c + 32 else c)"

definition ascii_upper :: "nat \<Rightarrow> nat" where
  "ascii_upper c = (if 97 \<le> c \<and> c \<le> 122 then c - 32 else c)"

definition py_lower :: "'f builtins \<Rightarrow> ustring \<Rightarrow> ustring" where
  "py_lower bi s = (if is_ascii s then map ascii_lower s else unicode_lower bi s)"

definition py_upper :: "'f builtins \<Rightarrow> ustring \<Rightarrow> ustring" where
  "py_upper bi s = (if is_ascii s then map ascii_upper s else unicode_upper bi s)"

text \<open>The code points for which \<open>str.isspace\<close> holds: what \<open>strip()\<close> and \<open>split()\<close> remove.\<close>

definition is_space :: "nat \<Rightarrow> bool" where
  "is_space c =
     ((9 \<le> c \<and> c \<le> 13) \<or> (28 \<le> c \<and> c \<le> 32) \<or> c = 133 \<or> c = 160 \<or> c = 5760 \<or>
      (8192 \<le> c \<and> c \<le> 8202) \<or> c = 8232 \<or> c = 8233 \<or> c = 8239 \<or> c = 8287 \<or>
      c = 12288)"

definition py_strip :: "ustring \<Rightarrow> ustring" where
  "py_strip s = rev (dropWhile is_space (rev (dropWhile is_space s)))"

fun split_from :: "ustring \<Rightarrow> ustring \<Rightarrow> ustring list" where
  "split_from cur [] = (if cur = [] then [] else [cur])"
| "split_from cur (c # cs) =
     (if is_space c then (if cur = [] then split_from [] cs else cur # split_from [] cs)
      else split_from (cur @ [c]) cs)"

text \<open>\<open>s.split()\<close>: the maximal runs of non-whitespace, in order.\<close>

definition py_split :: "ustring \<Rightarrow> ustring list" where
  "py_split s = split_from [] s"

text \<open>
  \<open>s.split(maxsplit=1)\<close>: the first token, then the rest of the string from the next
  non-whitespace code point to the end, when there is one.
\<close>

definition py_split_maxsplit1 :: "ustring \<Rightarrow> ustring list" where
  "py_split_maxsplit1 s =
     (let s1 = dropWhile is_space s in
      if s1 = [] then []
      else
        let tok = takeWhile (\<lambda>c. \<not> is_space c) s1;
            rest = dropWhile is_space (dropWhile (\<lambda>c. \<not> is_space c) s1)
        in if rest = [] then [tok] else [tok, rest])"

fun startswith :: "ustring \<Rightarrow> ustring \<Rightarrow> bool" where
  "startswith s [] = True"
| "startswith [] (p # ps) = False"
| "startswith (c # cs) (p # ps) = (c = p \<and> startswith cs ps)"

text \<open>\<open>sub in s\<close> on two strings: \<open>sub\<close> occurs in \<open>s\<close> as a contiguous run.\<close>

fun contains_str :: "ustring \<Rightarrow> ustring \<Rightarrow> bool" where
  "contains_str [] sub = (sub = [])"
| "contains_str (c # cs) sub = (startswith (c # cs) sub \<or> contains_str cs sub)"

text \<open>\<open>sep.join(parts)\<close>.\<close>

fun join :: "ustring \<Rightarrow> ustring list \<Rightarrow> ustring" where
  "join sep [] = []"
| "join sep [x] = x"
| "join sep (x # y # ys) = x @ sep @ join sep (y # ys)"

fun str_nat :: "nat \<Rightarrow> ustring" where
  "str_nat n = (if n < 10 then [48 + n] else str_nat (n div 10) @ [48 + n mod 10])"

declare str_nat.simps [simp del]

definition str_int :: "int \<Rightarrow> ustring" where
  "str_int i = (if i < 0 then 45 # str_nat (nat (- i)) else str_nat (nat i))"

subsection \<open>Operations on values of any type\<close>

text \<open>\<open>bool(v)\<close>, the test behind \<open>not v\<close>.\<close>

fun truthy :: "'f builtins \<Rightarrow> 'f json \<Rightarrow> bool" where
  "truthy bi JNull = False"
| "truthy bi (JBool b) = b"
| "truthy bi (JInt i) = (i \<noteq> 0)"
| "truthy bi (JFloat x) = float_bool bi x"
| "truthy bi (JStr s) = (s \<noteq> [])"
| "truthy bi (JList xs) = (xs \<noteq> [])"
| "truthy bi (JDict kvs) = (kvs \<noteq> [])"

text \<open>\<open>str(v)\<close>, which is what an f-string field \<open>{v}\<close> inserts.\<close>

fun py_str :: "'f builtins \<Rightarrow> 'f json \<Rightarrow> ustring" where
  "py_str bi JNull = ustr ''None''"
| "py_str bi (JBool b) = (if b then ustr ''True'' else ustr ''False'')"
| "py_str bi (JInt i) = str_int i"
| "py_str bi (JFloat x) = float_str bi x"
| "py_str bi (JStr s) = s"
| "py_str bi (JList xs) = container_str bi (JList xs)"
| "py_str bi (JDict kvs) = container_str bi (JDict kvs)"

text \<open>\<open>v.get(key, default)\<close>: only a \<open>dict\<close> has the method.\<close>

fun py_get :: "'f json \<Rightarrow> ustring \<Rightarrow> 'f json \<Rightarrow> py_error + 'f json" where
  "py_get (JDict kvs) k d = Inr (case map_of kvs k of None \<Rightarrow> d | Some v \<Rightarrow> v)"
| "py_get _ k d = Inl AttributeError"

text \<open>
  \<open>key in v\<close> for a string \<open>key\<close>: a key of a \<open>dict\<close>, an element of a \<open>list\<close>, a
  substring of a \<open>str\<close>; the other types are not iterable.
\<close>

fun py_in :: "ustring \<Rightarrow> 'f json \<Rightarrow> py_error + bool" where
  "py_in k (JDict kvs) = Inr (map_of kvs k \<noteq> None)"
| "py_in k (JList xs) = Inr (list_ex (\<lambda>x. case x of JStr s \<Rightarrow> s = k | _ \<Rightarrow> False) xs)"
| "py_in k (JStr s) = Inr (contains_str s k)"
| "py_in k _ = Inl TypeError"

text \<open>\<open>v[key]\<close> for a string \<open>key\<close>.\<close>

fun py_getitem :: "'f json \<Rightarrow> ustring \<Rightarrow> py_error + 'f json" where
  "py_getitem (JDict kvs) k = (case map_of kvs k of None \<Rightarrow> Inl KeyError | Some v \<Rightarrow> Inr v)"
| "py_getitem _ k = Inl TypeError"

text \<open>
  \<open>v[:4]\<close>. A \<open>dict\<close> has no slices (\<open>TypeError\<close> up to Python 3.11, \<open>KeyError\<close>
  from 3.12, where a slice is hashable).
\<close>

fun py_slice4 :: "'f json \<Rightarrow> py_error + 'f json" where
  "py_slice4 (JList xs) = Inr (JList (take 4 xs))"
| "py_slice4 (JStr s) = Inr (JStr (take 4 s))"
| "py_slice4 _ = Inl TypeError"

text \<open>The elements a \<open>for\<close> loop or a generator draws from \<open>v\<close>.\<close>

fun py_iter :: "'f json \<Rightarrow> py_error + 'f json list" where
  "py_iter (JList xs) = Inr xs"
| "py_iter (JStr s) = Inr (map (\<lambda>c. JStr [c]) s)"
| "py_iter (JDict kvs) = Inr (map (\<lambda>kv. JStr (fst kv)) kvs)"
| "py_iter _ = Inl TypeError"

text \<open>Sequencing of two steps of which the first may raise.\<close>

definition and_then :: "'e + 'a \<Rightarrow> ('a \<Rightarrow> 'e + 'b) \<Rightarrow> 'e + 'b" where
  "and_then r f = (case r of Inl e \<Rightarrow> Inl e | Inr v \<Rightarrow> f v)"

text \<open>\<open>float(v)\<close>; \<open>None\<close> when it raises (\<open>TypeError\<close>, \<open>ValueError\<close>, \<open>OverflowError\<close>).\<close>

fun py_float :: "'f builtins \<Rightarrow> 'f json \<Rightarrow> 'f option" where
  "py_float bi (JFloat x) = Some x"
| "py_float bi (JInt i) = float_of_int bi i"
| "py_float bi (JBool b) = float_of_int bi (if b then 1 else 0)"
| "py_float bi (JStr s) = (case float_of_str bi s of Inl m \<Rightarrow> None | Inr x \<Rightarrow> Some x)"
| "py_float bi JNull = None"
| "py_float bi (JList xs) = None"
| "py_float bi (JDict kvs) = None"

section \<open>The weather server (weather/weather.py)\<close>

definition NWS_API_BASE :: ustring where
  "NWS_API_BASE = ustr ''https://api.weather.gov''"

text \<open>
  The network is a parameter: \<open>http w url\<close> is what \<open>client.get(url)\<close>,
  \<open>raise_for_status()\<close> and \<open>r.json()\<close> do in the world \<open>w\<close>, either an exception
  (\<open>Inl\<close>, with its text) or the decoded object, and the world afterwards. The state of a
  handler is the world and the list of the URLs requested so far.
\<close>

type_synonym ('f, 'w) http = "'w \<Rightarrow> 'f json \<Rightarrow> (ustring + 'f dict) \<times> 'w"

record ('f, 'w) net =
  world :: 'w
  requests :: "'f json list"

text \<open>\<open>_get_json\<close>: one GET; every exception becomes \<open>None\<close>.\<close>

definition get_json ::
  "('f, 'w) http \<Rightarrow> 'f json \<Rightarrow> ('f, 'w) net \<Rightarrow> 'f dict option \<times> ('f, 'w) net" where
  "get_json http url s =
     (case http (world s) url of
        (r, w') \<Rightarrow>
          ((case r of Inl e \<Rightarrow> None | Inr d \<Rightarrow> Some d),
           \<lparr>world = w', requests = requests s @ [url]\<rparr>))"

text \<open>\<open>_format_alert\<close>.\<close>

definition format_alert :: "'f builtins \<Rightarrow> 'f json \<Rightarrow> py_error + ustring" where
  "format_alert bi feature =
     and_then (py_get feature (ustr ''properties'') (JDict [])) (\<lambda>props.
     and_then (py_get props (ustr ''event'') (JStr (ustr ''Unknown''))) (\<lambda>event.
     and_then (py_get props (ustr ''areaDesc'') (JStr (ustr ''Unknown''))) (\<lambda>area.
     and_then (py_get props (ustr ''severity'') (JStr (ustr ''Unknown''))) (\<lambda>severity.
     and_then (py_get props (ustr ''description'')
                 (JStr (ustr ''No description available''))) (\<lambda>description.
     and_then (py_get props (ustr ''instruction'')
                 (JStr (ustr ''No specific instructions provided''))) (\<lambda>instruction.
     Inr (ustr ''Event: '' @ py_str bi event @ [10] @
          ustr ''Area: '' @ py_str bi area @ [10] @
          ustr ''Severity: '' @ py_str bi severity @ [10] @
          ustr ''Description: '' @ py_str bi description @ [10] @
          ustr ''Instructions: '' @ py_str bi instruction)))))))"

text \<open>
  The generator \<open>_format_alert(f) for f in feats\<close> as \<open>join\<close> consumes it: the blocks in
  order, or the first exception.
\<close>

fun format_alerts :: "'f builtins \<Rightarrow> 'f json list \<Rightarrow> py_error + ustring list" where
  "format_alerts bi [] = Inr []"
| "format_alerts bi (f # fs) =
     and_then (format_alert bi f) (\<lambda>b.
     and_then (format_alerts bi fs) (\<lambda>bs. Inr (b # bs)))"

definition alerts_guidance :: ustring where
  "alerts_guidance = ustr ''Please provide a 2-letter US state/territory code (e.g., CA, NY).''"

definition alerts_unable :: ustring where
  "alerts_unable = ustr ''Unable to fetch alerts or invalid response.''"

definition alerts_none :: ustring where
  "alerts_none = ustr ''No active alerts for this state.''"

definition alerts_separator :: ustring where
  "alerts_separator = [10, 10] @ ustr ''---'' @ [10, 10]"

definition alerts_url :: "'f builtins \<Rightarrow> ustring \<Rightarrow> 'f json" where
  "alerts_url bi state = JStr (NWS_API_BASE @ ustr ''/alerts/active/area/'' @ py_upper bi state)"

definition get_alerts ::
  "'f builtins \<Rightarrow> ('f, 'w) http \<Rightarrow> ustring \<Rightarrow> ('f, 'w) net \<Rightarrow>
     (py_error + ustring) \<times> ('f, 'w) net" where
  "get_alerts bi http state s =
     (if state = [] \<or> length state \<noteq> 2 then (Inr alerts_guidance, s)
      else
        let url = alerts_url bi state in
        case get_json http url s of
          (data, s') \<Rightarrow>
            (case data of
               None \<Rightarrow> (Inr alerts_unable, s')
             | Some d \<Rightarrow>
                 if d = [] \<or> map_of d (ustr ''features'') = None then (Inr alerts_unable, s')
                 else
                   let feats = (case map_of d (ustr ''features'') of
                                  None \<Rightarrow> JList [] | Some v \<Rightarrow> v) in
                   if \<not> truthy bi feats then (Inr alerts_none, s')
                   else
                     (and_then (py_iter feats) (\<lambda>fs.
                      and_then (format_alerts bi fs) (\<lambda>blocks.
                      Inr (join alerts_separator blocks))), s')))"

definition forecast_invalid :: ustring where
  "forecast_invalid = ustr ''Invalid latitude/longitude.''"

definition forecast_unresolved :: ustring where
  "forecast_unresolved = ustr ''Unable to resolve grid forecast URL for this location.''"

definition forecast_no_periods :: ustring where
  "forecast_no_periods = ustr ''Unable to fetch forecast periods.''"

text \<open>
  The test of lines 74 and 81 on a decoded object \<open>d\<close> that is not \<open>None\<close>:
  \<open>not d or outer not in d or inner not in d[outer]\<close>. The last membership test raises
  when \<open>d[outer]\<close> is not iterable.
\<close>

definition lacks :: "'f dict \<Rightarrow> ustring \<Rightarrow> ustring \<Rightarrow> py_error + bool" where
  "lacks d outer inner =
     (if d = [] then Inr True
      else case map_of d outer of
             None \<Rightarrow> Inr True
           | Some v \<Rightarrow> and_then (py_in inner v) (\<lambda>b. Inr (\<not> b)))"

text \<open>The body of the loop over the periods: one line of the forecast.\<close>

definition format_period :: "'f builtins \<Rightarrow> 'f json \<Rightarrow> py_error + ustring" where
  "format_period bi p =
     and_then (py_get p (ustr ''name'') (JStr (ustr ''Period''))) (\<lambda>name.
     and_then (py_get p (ustr ''shortForecast'') (JStr (ustr ''n/a''))) (\<lambda>short.
     and_then (py_get p (ustr ''temperature'') (JStr (ustr ''n/a''))) (\<lambda>temp.
     and_then (py_get p (ustr ''temperatureUnit'') (JStr [])) (\<lambda>unit.
     and_then (py_get p (ustr ''windSpeed'') (JStr [])) (\<lambda>wind.
     Inr (py_str bi name @ ustr '': '' @ py_str bi short @ ustr '' ('' @ py_str bi temp @
          [194, 176] @ py_str bi unit @ ustr '') Wind '' @ py_str bi wind))))))"

fun format_periods :: "'f builtins \<Rightarrow> 'f json list \<Rightarrow> py_error + ustring list" where
  "format_periods bi [] = Inr []"
| "format_periods bi (p # ps) =
     and_then (format_period bi p) (\<lambda>l.
     and_then (format_periods bi ps) (\<lambda>ls. Inr (l # ls)))"

definition points_url :: "'f builtins \<Rightarrow> 'f \<Rightarrow> 'f \<Rightarrow> 'f json" where
  "points_url bi lat lon =
     JStr (NWS_API_BASE @ ustr ''/points/'' @ float_str bi lat @ [44] @ float_str bi lon)"

definition get_forecast ::
  "'f builtins \<Rightarrow> ('f, 'w) http \<Rightarrow> 'f json \<Rightarrow> 'f json \<Rightarrow> ('f, 'w) net \<Rightarrow>
     (py_error + ustring) \<times> ('f, 'w) net" where
  "get_forecast bi http latitude longitude s =
     (case py_float bi latitude of
        None \<Rightarrow> (Inr forecast_invalid, s)
      | Some lat \<Rightarrow>
     (case py_float bi longitude of
        None \<Rightarrow> (Inr forecast_invalid, s)
      | Some lon \<Rightarrow>
     case get_json http (points_url bi lat lon) s of
       (points, s1) \<Rightarrow>
     (case points of
        None \<Rightarrow> (Inr forecast_unresolved, s1)
      | Some pd \<Rightarrow>
     (case lacks pd (ustr ''properties'') (ustr ''forecast'') of
        Inl e \<Rightarrow> (Inl e, s1)
      | Inr True \<Rightarrow> (Inr forecast_unresolved, s1)
      | Inr False \<Rightarrow>
     (case and_then (py_getitem (JDict pd) (ustr ''properties''))
             (\<lambda>v. py_getitem v (ustr ''forecast'')) of
        Inl e \<Rightarrow> (Inl e, s1)
      | Inr forecast_url \<Rightarrow>
     (case get_json http forecast_url s1 of
        (fc, s2) \<Rightarrow>
     (case fc of
        None \<Rightarrow> (Inr forecast_no_periods, s2)
      | Some fd \<Rightarrow>
     (case lacks fd (ustr ''properties'') (ustr ''periods'') of
        Inl e \<Rightarrow> (Inl e, s2)
      | Inr True \<Rightarrow> (Inr forecast_no_periods, s2)
      | Inr False \<Rightarrow>
          (and_then (py_getitem (JDict fd) (ustr ''properties'')) (\<lambda>v.
           and_then (py_getitem v (ustr ''periods'')) (\<lambda>ps.
           and_then (py_slice4 ps) (\<lambda>periods.
           and_then (py_iter periods) (\<lambda>xs.
           and_then (format_periods bi xs) (\<lambda>lines.
           Inr (join [10] lines)))))), s2)))))))))"

section \<open>The client's read-eval-print loop (mcp-client/client.py)\<close>

text \<open>
  What one call of \<open>input(...)\<close> does: it returns a line, or raises \<open>EOFError\<close> or
  \<open>KeyboardInterrupt\<close>.
\<close>

datatype input = Line ustring | EOFError | KeyboardInterrupt

text \<open>
  What the loop does that can be seen from outside, in order: the prompt of \<open>input\<close>,
  a \<open>print\<close>, a \<open>session.call_tool(name, arguments)\<close>.
\<close>

datatype 'f event = Prompt | Print ustring | CallTool ustring "'f dict"

text \<open>
  A raised exception: one of class \<open>Exception\<close>, with its text \<open>str(e)\<close>, or one
  that \<open>except Exception\<close> does not catch (\<open>KeyboardInterrupt\<close>, \<open>SystemExit\<close>,
  \<open>asyncio.CancelledError\<close>).
\<close>

datatype exc = Exception ustring | BaseException

text \<open>
  A content block of a tool result: a text block with its \<open>text\<close>, or a block of
  another class (given by the class name), which has no attribute \<open>text\<close>.
\<close>

datatype content = TextContent ustring | OtherContent ustring

text \<open>
  The session is a parameter: \<open>call s name arguments\<close> is what
  \<open>await session.call_tool(name, arguments)\<close> does in the session state \<open>s\<close>, an
  exception or the \<open>content\<close> list of the result, and the state afterwards.
\<close>

type_synonym ('f, 's) session = "'s \<Rightarrow> ustring \<Rightarrow> 'f dict \<Rightarrow> (exc + content list) \<times> 's"

text \<open>
  How an iteration of \<open>while True\<close> ends: with \<open>continue\<close> or at the end of the
  body, so that the loop prompts again (the client awaits input); with \<open>break\<close>, so
  that the loop is left and the session closed; or with an exception that nothing
  catches.
\<close>

datatype control = Continue | Break | Propagate

definition usage_forecast :: ustring where
  "usage_forecast = ustr ''Usage: forecast <LAT> <LON>''"

definition unknown_command :: ustring where
  "unknown_command = ustr ''Unknown command. Try: alerts CA  |  forecast 37.78 -122.42''"

text \<open>\<open>res.content[0].text\<close>.\<close>

fun first_text :: "content list \<Rightarrow> exc + ustring" where
  "first_text [] = Inl (Exception (ustr ''list index out of range''))"
| "first_text (TextContent t # _) = Inr t"
| "first_text (OtherContent cls # _) =
     Inl (Exception ([39] @ cls @ [39] @ ustr '' object has no attribute '' @
                     [39] @ ustr ''text'' @ [39]))"

text \<open>\<open>res = await session.call_tool(name, arguments); print(res.content[0].text)\<close>.\<close>

definition call_and_print ::
  "('f, 's) session \<Rightarrow> ustring \<Rightarrow> 'f dict \<Rightarrow> 's \<Rightarrow> (exc + unit) \<times> 'f event list \<times> 's" where
  "call_and_print call name arguments s =
     (case call s name arguments of
        (Inl e, s') \<Rightarrow> (Inl e, [CallTool name arguments], s')
      | (Inr res, s') \<Rightarrow>
          (case first_text res of
             Inl e \<Rightarrow> (Inl e, [CallTool name arguments], s')
           | Inr t \<Rightarrow> (Inr (), [CallTool name arguments, Print t], s')))"

text \<open>\<open>float(s)\<close> on a token of the line.\<close>

definition parse_float :: "'f builtins \<Rightarrow> ustring \<Rightarrow> exc + 'f" where
  "parse_float bi s = (case float_of_str bi s of Inl m \<Rightarrow> Inl (Exception m) | Inr x \<Rightarrow> Inr x)"

text \<open>The text of the \<open>ValueError\<close> of \<open>_, state = parts\<close> when \<open>parts\<close> has not two items.\<close>

definition unpack_error :: "nat \<Rightarrow> ustring" where
  "unpack_error n =
     (if n < 2 then ustr ''not enough values to unpack (expected 2, got '' @ str_nat n @ [41]
      else ustr ''too many values to unpack (expected 2)'')"

text \<open>
  The body of the inner \<open>try\<close> (lines 44 to 59) on the stripped line \<open>q\<close>: \<open>Inl\<close> when
  it raises, with the events up to there.
\<close>

definition dispatch ::
  "'f builtins \<Rightarrow> ('f, 's) session \<Rightarrow> ustring \<Rightarrow> 's \<Rightarrow> (exc + unit) \<times> 'f event list \<times> 's" where
  "dispatch bi call q s =
     (if startswith q (ustr ''alerts '') then
        (case py_split_maxsplit1 q of
           [a, state] \<Rightarrow> call_and_print call (ustr ''get_alerts'') [(ustr ''state'', JStr state)] s
         | parts \<Rightarrow> (Inl (Exception (unpack_error (length parts))), [], s))
      else if startswith q (ustr ''forecast '') then
        (case py_split q of
           [c, a, b] \<Rightarrow>
             (case parse_float bi a of
                Inl e \<Rightarrow> (Inl e, [], s)
              | Inr lat \<Rightarrow>
                  (case parse_float bi b of
                     Inl e \<Rightarrow> (Inl e, [], s)
                   | Inr lon \<Rightarrow>
                       call_and_print call (ustr ''get_forecast'')
                         [(ustr ''latitude'', JFloat lat), (ustr ''longitude'', JFloat lon)] s))
         | parts \<Rightarrow> (Inr (), [Print usage_forecast], s))
      else (Inr (), [Print unknown_command], s))"

text \<open>One iteration of \<open>while True\<close> (lines 34 to 61), after the prompt.\<close>

definition loop_body ::
  "'f builtins \<Rightarrow> ('f, 's) session \<Rightarrow> input \<Rightarrow> 's \<Rightarrow> 'f event list \<times> control \<times> 's" where
  "loop_body bi call inp s =
     (case inp of
        EOFError \<Rightarrow> ([], Break, s)
      | KeyboardInterrupt \<Rightarrow> ([], Break, s)
      | Line l \<Rightarrow>
          let q = py_strip l in
          if q = [] then ([], Continue, s)
          else if py_lower bi q = ustr ''quit'' then ([], Break, s)
          else
            (case dispatch bi call q s of
               (Inl (Exception m), evs, s') \<Rightarrow>
                 (evs @ [Print (ustr ''Error: '' @ m)], Continue, s')
             | (Inl BaseException, evs, s') \<Rightarrow> (evs, Propagate, s')
             | (Inr u, evs, s') \<Rightarrow> (evs, Continue, s')))"

text \<open>
  The loop, on what the successive calls of \<open>input\<close> do; at the end of the input,
  \<open>input\<close> raises \<open>EOFError\<close>. The result says how the loop was left: \<open>Break\<close>, or
  \<open>Propagate\<close> with an exception that was not caught.
\<close>

fun main_loop ::
  "'f builtins \<Rightarrow> ('f, 's) session \<Rightarrow> input list \<Rightarrow> 's \<Rightarrow> 'f event list \<times> control \<times> 's" where
  "main_loop bi call [] s = ([Prompt], Break, s)"
| "main_loop bi call (inp # rest) s =
     (case loop_body bi call inp s of
        (evs, Continue, s') \<Rightarrow>
          (case main_loop bi call rest s' of
             (evs', c, s'') \<Rightarrow> (Prompt # evs @ evs', c, s''))
      | (evs, c, s') \<Rightarrow> (Prompt # evs, c, s'))"

section \<open>What the handlers are specified to return\<close>

text \<open>
  One labelled field of an alert block: the text of the member \<open>k\<close> of the properties,
  or the placeholder when the properties have no such member.
\<close>

definition alert_field :: "'f builtins \<Rightarrow> 'f dict \<Rightarrow> ustring \<Rightarrow> ustring \<Rightarrow> ustring" where
  "alert_field bi props k placeholder =
     (case map_of props k of None \<Rightarrow> placeholder | Some v \<Rightarrow> py_str bi v)"

text \<open>The block of an alert with the properties \<open>props\<close>: five labelled lines.\<close>

definition alert_block :: "'f builtins \<Rightarrow> 'f dict \<Rightarrow> ustring" where
  "alert_block bi props =
     ustr ''Event: '' @ alert_field bi props (ustr ''event'') (ustr ''Unknown'') @ [10] @
     ustr ''Area: '' @ alert_field bi props (ustr ''areaDesc'') (ustr ''Unknown'') @ [10] @
     ustr ''Severity: '' @ alert_field bi props (ustr ''severity'') (ustr ''Unknown'') @ [10] @
     ustr ''Description: '' @
       alert_field bi props (ustr ''description'') (ustr ''No description available'') @ [10] @
     ustr ''Instructions: '' @
       alert_field bi props (ustr ''instruction'') (ustr ''No specific instructions provided'')"

text \<open>
  The properties of a feature that is an object whose member \<open>properties\<close> is absent
  (no properties) or an object; \<open>None\<close> for any other value.
\<close>

fun feature_properties :: "'f json \<Rightarrow> 'f dict option" where
  "feature_properties (JDict kvs) =
     (case map_of kvs (ustr ''properties'') of
        None \<Rightarrow> Some []
      | Some (JDict ps) \<Rightarrow> Some ps
      | Some _ \<Rightarrow> None)"
| "feature_properties _ = None"


text \<open>
  One line of the forecast for a period object \<open>p\<close>, with \<open>deg\<close> for the text between
  the temperature and its unit:
  \<open>name: shortForecast (temperature deg unit) Wind windSpeed\<close>, each field with its
  placeholder when the period has no such member.
\<close>

definition period_line :: "'f builtins \<Rightarrow> ustring \<Rightarrow> 'f dict \<Rightarrow> ustring" where
  "period_line bi deg p =
     alert_field bi p (ustr ''name'') (ustr ''Period'') @ ustr '': '' @
     alert_field bi p (ustr ''shortForecast'') (ustr ''n/a'') @ ustr '' ('' @
     alert_field bi p (ustr ''temperature'') (ustr ''n/a'') @ deg @
     alert_field bi p (ustr ''temperatureUnit'') [] @ ustr '') Wind '' @
     alert_field bi p (ustr ''windSpeed'') []"

section \<open>Instances for the examples\<close>

text \<open>
  A small instance of the builtins, in which the floats are the integers: \<open>float\<close>
  reads a string of decimal digits and \<open>str\<close> prints \<open>12\<close> as \<open>12.0\<close>.
\<close>

definition example_builtins :: "int builtins" where
  "example_builtins =
     \<lparr>float_of_str =
        (\<lambda>s. if s \<noteq> [] \<and> list_all (\<lambda>c. 48 \<le> c \<and> c \<le> 57) s
             then Inr (int (foldl (\<lambda>a c. 10 * a + (c - 48)) 0 s))
             else Inl (ustr ''could not convert string to float: '' @ [39] @ s @ [39])),
      float_of_int = Some,
      float_str = (\<lambda>x. str_int x @ ustr ''.0''),
      float_bool = (\<lambda>x. x \<noteq> 0),
      container_str = (\<lambda>v. ustr ''[...]''),
      unicode_lower = (\<lambda>s. s),
      unicode_upper = (\<lambda>s. s)\<rparr>"

text \<open>A network that answers the successive requests from a list of prepared answers.\<close>

definition scripted :: "('f, (ustring + 'f dict) list) http" where
  "scripted w url =
     (case w of [] \<Rightarrow> (Inl (ustr ''ConnectError''), []) | r # rs \<Rightarrow> (r, rs))"

text \<open>A session that answers the successive tool calls from a list of prepared results.\<close>

definition scripted_session :: "('f, (exc + content list) list) session" where
  "scripted_session w name arguments =
     (case w of [] \<Rightarrow> (Inl (Exception (ustr ''Connection closed'')), []) | r # rs \<Rightarrow> (r, rs))"

section \<open>Properties of \<open>get_alerts\<close>\<close>

lemma format_alert_object:
  "feature_properties f = Some ps \<Longrightarrow> format_alert bi f = Inr (alert_block bi ps)"
  by (cases f)
     (auto simp: format_alert_def and_then_def alert_block_def alert_field_def
           split: option.splits json.splits)

lemma format_alerts_objects:
  "map feature_properties fs = map Some pss \<Longrightarrow>
   format_alerts bi fs = Inr (map (alert_block bi) pss)"
proof (induction fs arbitrary: pss)
  case Nil
  then show ?case by simp
next
  case (Cons f fs)
  then obtain ps pss' where pss: "pss = ps # pss'" by (cases pss) auto
  with Cons.prems have "feature_properties f = Some ps"
    and "map feature_properties fs = map Some pss'"
    by simp_all
  then show ?case
    using Cons.IH [of pss'] pss by (simp add: format_alert_object and_then_def)
qed

text \<open>
  Claim C3. For every state code whose length is not 2, the empty string included,
  \<open>get_alerts\<close> returns the fixed guidance string, and the state of the network is the
  one it started from: no request was made.
\<close>

theorem get_alerts_bad_length:
  "length state \<noteq> 2 \<Longrightarrow> get_alerts bi http state s = (Inr alerts_guidance, s)"
  by (simp add: get_alerts_def)

theorem get_alerts_bad_length_witness:
  "length (ustr ''CAL'') \<noteq> 2 \<and> length (ustr []) \<noteq> 2 \<and>
   get_alerts example_builtins scripted (ustr ''CAL'') \<lparr>world = [], requests = []\<rparr> =
     (Inr alerts_guidance, \<lparr>world = [], requests = []\<rparr>) \<and>
   get_alerts example_builtins scripted (ustr []) \<lparr>world = [], requests = []\<rparr> =
     (Inr alerts_guidance, \<lparr>world = [], requests = []\<rparr>)"
proof -
  have a: "length (ustr ''CAL'') \<noteq> 2" and b: "length (ustr []) \<noteq> 2"
    by (simp_all add: ustr_def)
  show ?thesis
    using a b
      get_alerts_bad_length
        [OF a, of example_builtins scripted "\<lparr>world = [], requests = []\<rparr>"]
      get_alerts_bad_length
        [OF b, of example_builtins scripted "\<lparr>world = [], requests = []\<rparr>"]
    by blast
qed



text \<open>
  Claim C10. When the alerts fetch succeeds and the member \<open>features\<close> is present with
  a falsy value of any type (\<open>null\<close>, \<open>false\<close>, \<open>0\<close>, an empty string or object),
  \<open>get_alerts\<close> returns the "no active alerts" string, the same result as for an empty
  list of features.
\<close>

theorem get_alerts_falsy_features:
  assumes "length state = 2"
    and "get_json http (alerts_url bi state) s = (Some d, s')"
    and "map_of d (ustr ''features'') = Some v"
    and "\<not> truthy bi v"
  shows "get_alerts bi http state s = (Inr alerts_none, s')"
  using assms by (auto simp: get_alerts_def)

theorem get_alerts_falsy_features_witness:
  "\<not> truthy example_builtins JNull \<and>
   get_alerts example_builtins scripted (ustr ''ca'')
     \<lparr>world = [Inr [(ustr ''features'', JNull)]], requests = []\<rparr> =
     (Inr alerts_none,
      \<lparr>world = [], requests = [JStr (ustr ''https://api.weather.gov/alerts/active/area/CA'')]\<rparr>)"
proof -
  let ?url = "JStr (ustr ''https://api.weather.gov/alerts/active/area/CA'')"
  let ?s' = "\<lparr>world = [] :: (ustring + int dict) list, requests = [?url]\<rparr>"
  have len: "length (ustr ''ca'') = 2"
    by (simp add: ustr_def)
  have url: "alerts_url example_builtins (ustr ''ca'') = ?url"
    by code_simp
  have g: "get_json scripted (alerts_url example_builtins (ustr ''ca''))
             \<lparr>world = [Inr [(ustr ''features'', JNull)]], requests = []\<rparr> =
           (Some [(ustr ''features'', JNull)], ?s')"
    by (simp add: url get_json_def scripted_def)
  have m: "map_of [(ustr ''features'', JNull :: int json)] (ustr ''features'') = Some JNull"
    by simp
  have f: "\<not> truthy example_builtins JNull"
    by simp
  show ?thesis
    using get_alerts_falsy_features [OF len g m f] f by simp
qed

text \<open>
  Claim C1, as amended. When the alerts fetch succeeds and the member \<open>features\<close> is a
  list of \<open>N \<ge> 1\<close> objects, each with its member \<open>properties\<close> absent or an object,
  \<open>get_alerts\<close> returns the \<open>N\<close> blocks of the features, in order, joined by the
  separator; each block is the five labelled lines Event, Area, Severity, Description,
  Instructions with the placeholder where the properties lack the member.
\<close>

theorem get_alerts_blocks:
  assumes "length state = 2"
    and "get_json http (alerts_url bi state) s = (Some d, s')"
    and "map_of d (ustr ''features'') = Some (JList fs)"
    and "fs \<noteq> []"
    and "map feature_properties fs = map Some pss"
  shows "get_alerts bi http state s =
           (Inr (join alerts_separator (map (alert_block bi) pss)), s') \<and>
         length (map (alert_block bi) pss) = length fs"
proof -
  from assms(3) have "d \<noteq> []" by auto
  moreover from assms(1) have "state \<noteq> []" by auto
  moreover from assms(5) have "length (map Some pss) = length fs"
    by (metis length_map)
  ultimately show ?thesis
    using assms by (simp add: get_alerts_def and_then_def format_alerts_objects)
qed

theorem get_alerts_blocks_witness:
  "get_alerts example_builtins scripted (ustr ''ca'')
     \<lparr>world = [Inr [(ustr ''features'',
                JList [JDict [(ustr ''properties'',
                         JDict [(ustr ''event'', JStr (ustr ''Flood Watch'')),
                                (ustr ''severity'', JStr (ustr ''Severe''))])],
                       JDict []])]],
      requests = []\<rparr> =
     (Inr (ustr ''Event: Flood Watch'' @ [10] @ ustr ''Area: Unknown'' @ [10] @
           ustr ''Severity: Severe'' @ [10] @
           ustr ''Description: No description available'' @ [10] @
           ustr ''Instructions: No specific instructions provided'' @
           [10, 10] @ ustr ''---'' @ [10, 10] @
           ustr ''Event: Unknown'' @ [10] @ ustr ''Area: Unknown'' @ [10] @
           ustr ''Severity: Unknown'' @ [10] @
           ustr ''Description: No description available'' @ [10] @
           ustr ''Instructions: No specific instructions provided''),
      \<lparr>world = [], requests = [JStr (ustr ''https://api.weather.gov/alerts/active/area/CA'')]\<rparr>)"
proof -
  let ?url = "JStr (ustr ''https://api.weather.gov/alerts/active/area/CA'')"
  let ?s' = "\<lparr>world = [] :: (ustring + int dict) list, requests = [?url]\<rparr>"
  let ?ps = "[(ustr ''event'', JStr (ustr ''Flood Watch'')),
              (ustr ''severity'', JStr (ustr ''Severe'') :: int json)]"
  let ?fs = "[JDict [(ustr ''properties'', JDict ?ps)], JDict []]"
  let ?d = "[(ustr ''features'', JList ?fs)]"
  have len: "length (ustr ''ca'') = 2"
    by (simp add: ustr_def)
  have url: "alerts_url example_builtins (ustr ''ca'') = ?url"
    by code_simp
  have g: "get_json scripted (alerts_url example_builtins (ustr ''ca''))
             \<lparr>world = [Inr ?d], requests = []\<rparr> = (Some ?d, ?s')"
    by (simp add: url get_json_def scripted_def)
  have m: "map_of ?d (ustr ''features'') = Some (JList ?fs)"
    by simp
  have ne: "?fs \<noteq> []"
    by simp
  have props: "map feature_properties ?fs = map Some [?ps, []]"
    by simp
  have b1: "alert_block example_builtins ?ps =
            ustr ''Event: Flood Watch'' @ [10] @ ustr ''Area: Unknown'' @ [10] @
            ustr ''Severity: Severe'' @ [10] @
            ustr ''Description: No description available'' @ [10] @
            ustr ''Instructions: No specific instructions provided''"
    by code_simp
  have b2: "alert_block example_builtins [] =
            ustr ''Event: Unknown'' @ [10] @ ustr ''Area: Unknown'' @ [10] @
            ustr ''Severity: Unknown'' @ [10] @
            ustr ''Description: No description available'' @ [10] @
            ustr ''Instructions: No specific instructions provided''"
    by code_simp
  show ?thesis
    using get_alerts_blocks [OF len g m ne props]
    by (simp add: b1 b2 alerts_separator_def)
qed

text \<open>
  The claim as written covers every list of features; for a feature whose member
  \<open>properties\<close> is \<open>null\<close>, \<open>props.get\<close> raises and no string is returned.
\<close>

theorem get_alerts_null_properties_counterexample:
  "get_json scripted (alerts_url example_builtins (ustr ''ca''))
     \<lparr>world = [Inr [(ustr ''features'', JList [JDict [(ustr ''properties'', JNull)]])]],
      requests = []\<rparr> =
     (Some [(ustr ''features'', JList [JDict [(ustr ''properties'', JNull)]])],
      \<lparr>world = [], requests = [JStr (ustr ''https://api.weather.gov/alerts/active/area/CA'')]\<rparr>) \<and>
   get_alerts example_builtins scripted (ustr ''ca'')
     \<lparr>world = [Inr [(ustr ''features'', JList [JDict [(ustr ''properties'', JNull)]])]],
      requests = []\<rparr> =
     (Inl AttributeError,
      \<lparr>world = [], requests = [JStr (ustr ''https://api.weather.gov/alerts/active/area/CA'')]\<rparr>)"
  by code_simp

section \<open>Properties of \<open>get_forecast\<close>\<close>

lemma get_json_requests:
  "get_json http url s = (r, s') \<Longrightarrow> requests s' = requests s @ [url]"
  by (auto simp: get_json_def split: prod.splits)


lemma lacks_present:
  "map_of d outer = Some (JDict kvs) \<Longrightarrow> map_of kvs inner = Some v \<Longrightarrow>
   lacks d outer inner = Inr False"
  by (auto simp: lacks_def and_then_def)







lemma get_forecast_requests:
  assumes "py_float bi latitude = Some lat" and "py_float bi longitude = Some lon"
  shows "\<exists>rest. requests (snd (get_forecast bi http latitude longitude s)) =
           requests s @ points_url bi lat lon # rest"
proof -
  obtain points s1 where g1: "get_json http (points_url bi lat lon) s = (points, s1)"
    by (cases "get_json http (points_url bi lat lon) s")
  then have r1: "requests s1 = requests s @ [points_url bi lat lon]"
    by (rule get_json_requests)
  have r2: "\<And>u fc s2. get_json http u s1 = (fc, s2) \<Longrightarrow>
              requests s2 = requests s @ points_url bi lat lon # [u]"
    using r1 by (auto dest: get_json_requests)
  have "snd (get_forecast bi http latitude longitude s) = s1 \<or>
        (\<exists>u fc. snd (get_forecast bi http latitude longitude s) = snd (get_json http u s1))"
    using assms g1
    by (auto simp: get_forecast_def split: option.splits sum.splits bool.splits prod.splits)
       (metis snd_conv)+
  then show ?thesis
  proof
    assume "snd (get_forecast bi http latitude longitude s) = s1"
    with r1 show ?thesis by simp
  next
    assume "\<exists>u fc. snd (get_forecast bi http latitude longitude s) = snd (get_json http u s1)"
    then obtain u where u: "snd (get_forecast bi http latitude longitude s) = snd (get_json http u s1)"
      by blast
    obtain fc s2 where "get_json http u s1 = (fc, s2)"
      by (cases "get_json http u s1")
    with u r2 show ?thesis by auto
  qed
qed

text \<open>
  Claim C9. \<open>get_forecast\<close> applies \<open>float\<close> to both arguments, whatever their type,
  before any fetch: when either coercion raises, it returns the fixed
  "Invalid latitude/longitude." string (a result, not an exception) and makes no request;
  when both succeed, the first request is for the points URL written with the two
  coerced values.
\<close>

theorem get_forecast_coerces:
  "(py_float bi latitude = None \<or> py_float bi longitude = None \<longrightarrow>
      get_forecast bi http latitude longitude s = (Inr forecast_invalid, s)) \<and>
   (\<forall>lat lon. py_float bi latitude = Some lat \<and> py_float bi longitude = Some lon \<longrightarrow>
      (\<exists>rest. requests (snd (get_forecast bi http latitude longitude s)) =
         requests s @ points_url bi lat lon # rest))"
proof (intro conjI allI impI)
  assume "py_float bi latitude = None \<or> py_float bi longitude = None"
  then show "get_forecast bi http latitude longitude s = (Inr forecast_invalid, s)"
    by (auto simp: get_forecast_def split: option.splits)
next
  fix lat lon
  assume "py_float bi latitude = Some lat \<and> py_float bi longitude = Some lon"
  then show "\<exists>rest. requests (snd (get_forecast bi http latitude longitude s)) =
           requests s @ points_url bi lat lon # rest"
    by (auto intro: get_forecast_requests)
qed

theorem get_forecast_coerces_witness:
  "py_float example_builtins (JStr (ustr ''north'')) = None \<and>
   get_forecast example_builtins scripted (JStr (ustr ''north'')) (JStr (ustr ''122''))
     \<lparr>world = [], requests = []\<rparr> =
     (Inr forecast_invalid, \<lparr>world = [], requests = []\<rparr>) \<and>
   get_forecast example_builtins scripted (JStr (ustr ''37'')) JNull
     \<lparr>world = [], requests = []\<rparr> =
     (Inr forecast_invalid, \<lparr>world = [], requests = []\<rparr>) \<and>
   (\<exists>rest. requests (snd (get_forecast example_builtins scripted (JStr (ustr ''37''))
                              (JStr (ustr ''122'')) \<lparr>world = [], requests = []\<rparr>)) =
      JStr (ustr ''https://api.weather.gov/points/37.0,122.0'') # rest)"
proof -
  have n: "py_float example_builtins (JStr (ustr ''north'')) = None"
    by code_simp
  have z: "py_float example_builtins JNull = None"
    by simp
  have lat: "py_float example_builtins (JStr (ustr ''37'')) = Some 37"
    and lon: "py_float example_builtins (JStr (ustr ''122'')) = Some 122"
    by code_simp+
  have url: "points_url example_builtins 37 122 =
             JStr (ustr ''https://api.weather.gov/points/37.0,122.0'')"
    by code_simp
  note t = get_forecast_coerces [of example_builtins _ _ scripted "\<lparr>world = [], requests = []\<rparr>"]
  have a: "get_forecast example_builtins scripted (JStr (ustr ''north'')) (JStr (ustr ''122''))
             \<lparr>world = [], requests = []\<rparr> =
           (Inr forecast_invalid, \<lparr>world = [], requests = []\<rparr>)"
    using t [of "JStr (ustr ''north'')" "JStr (ustr ''122'')"] n by blast
  have b: "get_forecast example_builtins scripted (JStr (ustr ''37'')) JNull
             \<lparr>world = [], requests = []\<rparr> =
           (Inr forecast_invalid, \<lparr>world = [], requests = []\<rparr>)"
    using t [of "JStr (ustr ''37'')" JNull] z by blast
  have c: "\<exists>rest. requests (snd (get_forecast example_builtins scripted (JStr (ustr ''37''))
                              (JStr (ustr ''122'')) \<lparr>world = [], requests = []\<rparr>)) =
      JStr (ustr ''https://api.weather.gov/points/37.0,122.0'') # rest"
    using t [of "JStr (ustr ''37'')" "JStr (ustr ''122'')"] lat lon url by auto
  from n a b c show ?thesis by blast
qed

lemma format_period_object:
  "format_period bi (JDict p) = Inr (period_line bi [194, 176] p)"
  by (simp add: format_period_def and_then_def period_line_def alert_field_def
           split: option.splits)

lemma format_periods_objects:
  "format_periods bi (map JDict ps) = Inr (map (period_line bi [194, 176]) ps)"
  by (induction ps) (simp_all add: format_period_object and_then_def)

text \<open>
  What \<open>get_forecast\<close> returns when both fetches succeed and the first four periods
  are objects: their lines, in order, joined by newlines; at most four, whatever the
  number of periods.
\<close>

lemma get_forecast_lines:
  assumes "py_float bi latitude = Some lat" and "py_float bi longitude = Some lon"
    and "get_json http (points_url bi lat lon) s = (Some pd, s1)"
    and "map_of pd (ustr ''properties'') = Some (JDict ps)"
    and "map_of ps (ustr ''forecast'') = Some u"
    and "get_json http u s1 = (Some fd, s2)"
    and "map_of fd (ustr ''properties'') = Some (JDict qs)"
    and "map_of qs (ustr ''periods'') = Some (JList xs)"
    and "take 4 xs = map JDict periods"
  shows "get_forecast bi http latitude longitude s =
           (Inr (join [10] (map (period_line bi [194, 176]) periods)), s2) \<and>
         length periods \<le> 4"
proof -
  have l1: "lacks pd (ustr ''properties'') (ustr ''forecast'') = Inr False"
    using assms(4,5) by (rule lacks_present)
  have l2: "lacks fd (ustr ''properties'') (ustr ''periods'') = Inr False"
    using assms(7,8) by (rule lacks_present)
  have "length periods = length (take 4 xs)"
    using assms(9) by simp
  then have len: "length periods \<le> 4"
    by simp
  from assms l1 l2 have "get_forecast bi http latitude longitude s =
           (Inr (join [10] (map (period_line bi [194, 176]) periods)), s2)"
    by (simp add: get_forecast_def and_then_def format_periods_objects)
  with len show ?thesis by simp
qed

text \<open>
  Claim C5. The claim gives the line format as
  \<open>name: shortForecast (temperature\<degree>unit) Wind windSpeed\<close>, with the degree sign
  (code point 176) between the temperature and its unit. The string literal of the
  source has the two code points 194 and 176 there, so every line of a forecast has a
  code point more than the format of the claim. Here is the forecast of one period.
\<close>

theorem get_forecast_degree_sign:
  "get_forecast example_builtins scripted (JFloat 37) (JFloat (- 122))
     \<lparr>world =
        [Inr [(ustr ''properties'', JDict [(ustr ''forecast'', JStr (ustr ''https://f''))])],
         Inr [(ustr ''properties'',
               JDict [(ustr ''periods'',
                       JList [JDict [(ustr ''name'', JStr (ustr ''Tonight'')),
                                     (ustr ''shortForecast'', JStr (ustr ''Clear'')),
                                     (ustr ''temperature'', JInt 55),
                                     (ustr ''temperatureUnit'', JStr (ustr ''F'')),
                                     (ustr ''windSpeed'', JStr (ustr ''5 mph''))]])])]],
      requests = []\<rparr> =
     (Inr (ustr ''Tonight: Clear (55'' @ [194, 176] @ ustr ''F) Wind 5 mph''),
      \<lparr>world = [],
         requests = [JStr (ustr ''https://api.weather.gov/points/37.0,-122.0''),
                     JStr (ustr ''https://f'')]\<rparr>) \<and>
   ustr ''Tonight: Clear (55'' @ [194, 176] @ ustr ''F) Wind 5 mph'' \<noteq>
   period_line example_builtins [176]
     [(ustr ''name'', JStr (ustr ''Tonight'')),
      (ustr ''shortForecast'', JStr (ustr ''Clear'')),
      (ustr ''temperature'', JInt 55),
      (ustr ''temperatureUnit'', JStr (ustr ''F'')),
      (ustr ''windSpeed'', JStr (ustr ''5 mph''))]"
  by code_simp

section \<open>Properties of the client's loop\<close>

lemma startswith_append: "startswith s p \<longleftrightarrow> (\<exists>t. s = p @ t)"
  by (induction s p rule: startswith.induct) auto

lemma py_strip_last: "py_strip l \<noteq> [] \<Longrightarrow> \<not> is_space (last (py_strip l))"
proof -
  assume ne: "py_strip l \<noteq> []"
  let ?r = "dropWhile is_space (rev (dropWhile is_space l))"
  from ne have r: "?r \<noteq> []"
    by (simp add: py_strip_def)
  then have "\<not> is_space (hd ?r)"
    by (rule hd_dropWhile)
  moreover from r have "last (py_strip l) = hd ?r"
    by (simp add: py_strip_def last_rev)
  ultimately show ?thesis by simp
qed

lemma split_alerts:
  assumes "startswith q (ustr ''alerts '')" and "q \<noteq> []" and "\<not> is_space (last q)"
  shows "py_split_maxsplit1 q = [ustr ''alerts'', dropWhile is_space (drop 7 q)] \<and>
         dropWhile is_space (drop 7 q) \<noteq> []"
proof -
  from assms(1) obtain t where q: "q = ustr ''alerts '' @ t"
    by (auto simp: startswith_append)
  have "t \<noteq> []"
  proof
    assume "t = []"
    with q assms(3) show False by (simp add: ustr_def is_space_def)
  qed
  with q assms(3) have "\<not> is_space (last t)"
    by simp
  with \<open>t \<noteq> []\<close> have rest: "dropWhile is_space t \<noteq> []"
    by (metis dropWhile_eq_Nil_conv last_in_set)
  from q have d: "drop 7 q = t"
    by (simp add: ustr_def)
  from q rest show ?thesis
    unfolding d by (simp add: py_split_maxsplit1_def ustr_def is_space_def Let_def)
qed

lemma alerts_not_forecast:
  "startswith q (ustr ''alerts '') \<Longrightarrow> \<not> startswith q (ustr ''forecast '')"
  by (cases q) (simp_all add: ustr_def)

lemma not_three:
  "length xs \<noteq> 3 \<Longrightarrow> (case xs of [c, a, b] \<Rightarrow> f c a b | _ \<Rightarrow> g) = g"
  by (auto split: list.splits)

lemma call_and_print_events:
  "\<exists>evs. fst (snd (call_and_print call name arguments s)) = CallTool name arguments # evs"
  by (auto simp: call_and_print_def split: prod.splits sum.splits)

lemma dispatch_alerts:
  assumes "startswith q (ustr ''alerts '')" and "q \<noteq> []" and "\<not> is_space (last q)"
  shows "dispatch bi call q s =
           call_and_print call (ustr ''get_alerts'')
             [(ustr ''state'', JStr (dropWhile is_space (drop 7 q)))] s"
  using assms split_alerts [OF assms] by (simp add: dispatch_def)

lemma loop_body_dispatch_events:
  assumes "py_strip l \<noteq> []" and "py_lower bi (py_strip l) \<noteq> ustr ''quit''"
  shows "\<exists>evs. fst (loop_body bi call (Line l) s) =
           fst (snd (dispatch bi call (py_strip l) s)) @ evs"
  using assms
  by (auto simp: loop_body_def Let_def split: prod.splits sum.splits exc.splits)

text \<open>
  Claim C2, as amended. On a line that is neither empty nor \<open>quit\<close>: when it starts
  with \<open>forecast\<close> and a space and does not split into exactly three tokens, the client
  prints the usage message and goes on to the next prompt, with no tool call; when it
  starts with \<open>alerts\<close> and a space, the client calls \<open>get_alerts\<close> with the whole rest of
  the line as the state, however many tokens it has; any other line prints the
  "unknown command" message.
\<close>

theorem repl_commands:
  assumes "q = py_strip l" and "q \<noteq> []" and "py_lower bi q \<noteq> ustr ''quit''"
  shows "(startswith q (ustr ''forecast '') \<and> length (py_split q) \<noteq> 3 \<longrightarrow>
            loop_body bi call (Line l) s = ([Print usage_forecast], Continue, s)) \<and>
         (startswith q (ustr ''alerts '') \<longrightarrow>
            (\<exists>evs. fst (loop_body bi call (Line l) s) =
               CallTool (ustr ''get_alerts'')
                 [(ustr ''state'', JStr (dropWhile is_space (drop 7 q)))] # evs)) \<and>
         (\<not> startswith q (ustr ''alerts '') \<and> \<not> startswith q (ustr ''forecast '') \<longrightarrow>
            loop_body bi call (Line l) s = ([Print unknown_command], Continue, s))"
proof (intro conjI impI)
  assume h: "startswith q (ustr ''forecast '') \<and> length (py_split q) \<noteq> 3"
  then have "\<not> startswith q (ustr ''alerts '')"
    using alerts_not_forecast by blast
  with h have "dispatch bi call q s = (Inr (), [Print usage_forecast], s)"
    by (simp add: dispatch_def not_three)
  with assms show "loop_body bi call (Line l) s = ([Print usage_forecast], Continue, s)"
    by (simp add: loop_body_def)
next
  assume h: "startswith q (ustr ''alerts '')"
  from assms have "\<not> is_space (last q)"
    using py_strip_last by blast
  with h assms(2) have d: "dispatch bi call q s =
      call_and_print call (ustr ''get_alerts'')
        [(ustr ''state'', JStr (dropWhile is_space (drop 7 q)))] s"
    by (rule dispatch_alerts)
  obtain evs where "fst (snd (dispatch bi call q s)) =
      CallTool (ustr ''get_alerts'')
        [(ustr ''state'', JStr (dropWhile is_space (drop 7 q)))] # evs"
    unfolding d
    using call_and_print_events
      [of call "ustr ''get_alerts''" "[(ustr ''state'', JStr (dropWhile is_space (drop 7 q)))]" s]
    by auto
  moreover obtain evs' where "fst (loop_body bi call (Line l) s) =
      fst (snd (dispatch bi call q s)) @ evs'"
    using loop_body_dispatch_events [of l bi call s] assms by auto
  ultimately show "\<exists>evs. fst (loop_body bi call (Line l) s) =
      CallTool (ustr ''get_alerts'')
        [(ustr ''state'', JStr (dropWhile is_space (drop 7 q)))] # evs"
    by simp
next
  assume "\<not> startswith q (ustr ''alerts '') \<and> \<not> startswith q (ustr ''forecast '')"
  then have "dispatch bi call q s = (Inr (), [Print unknown_command], s)"
    by (simp add: dispatch_def)
  with assms show "loop_body bi call (Line l) s = ([Print unknown_command], Continue, s)"
    by (simp add: loop_body_def)
qed

text \<open>The definitions that evaluate the loop on a given line.\<close>

lemmas client_eval =
  ustr_def py_strip_def is_space_def py_lower_def is_ascii_def ascii_lower_def py_split_def
  py_split_maxsplit1_def loop_body_def dispatch_def call_and_print_def scripted_session_def
  parse_float_def example_builtins_def Let_def alerts_guidance_def

theorem repl_commands_witness:
  "loop_body example_builtins scripted_session (Line (ustr ''forecast 1 2 3''))
     [Inr [TextContent (ustr ''ok'')]] =
     ([Print usage_forecast], Continue, [Inr [TextContent (ustr ''ok'')]]) \<and>
   (\<exists>evs. fst (loop_body example_builtins scripted_session (Line (ustr ''alerts CA''))
                 [Inr [TextContent (ustr ''ok'')]]) =
      CallTool (ustr ''get_alerts'') [(ustr ''state'', JStr (ustr ''CA''))] # evs) \<and>
   loop_body example_builtins scripted_session (Line (ustr ''forecast''))
     [Inr [TextContent (ustr ''ok'')]] =
     ([Print unknown_command], Continue, [Inr [TextContent (ustr ''ok'')]])"
proof -
  let ?s = "[Inr [TextContent (ustr ''ok'')]] :: (exc + content list) list"
  have f: "ustr ''forecast 1 2 3'' = py_strip (ustr ''forecast 1 2 3'')"
    "ustr ''forecast 1 2 3'' \<noteq> []"
    "py_lower example_builtins (ustr ''forecast 1 2 3'') \<noteq> ustr ''quit''"
    "startswith (ustr ''forecast 1 2 3'') (ustr ''forecast '')"
    "length (py_split (ustr ''forecast 1 2 3'')) \<noteq> 3"
    by (simp_all add: client_eval)
  have a: "ustr ''alerts CA'' = py_strip (ustr ''alerts CA'')"
    "ustr ''alerts CA'' \<noteq> []"
    "py_lower example_builtins (ustr ''alerts CA'') \<noteq> ustr ''quit''"
    "startswith (ustr ''alerts CA'') (ustr ''alerts '')"
    "dropWhile is_space (drop 7 (ustr ''alerts CA'')) = ustr ''CA''"
    by (simp_all add: client_eval)
  have u: "ustr ''forecast'' = py_strip (ustr ''forecast'')"
    "ustr ''forecast'' \<noteq> []"
    "py_lower example_builtins (ustr ''forecast'') \<noteq> ustr ''quit''"
    "\<not> startswith (ustr ''forecast'') (ustr ''alerts '')"
    "\<not> startswith (ustr ''forecast'') (ustr ''forecast '')"
    by (simp_all add: client_eval)
  have 1: "loop_body example_builtins scripted_session (Line (ustr ''forecast 1 2 3'')) ?s =
           ([Print usage_forecast], Continue, ?s)"
    using repl_commands [OF f(1,2,3), of scripted_session ?s] f(4,5) by blast
  have 2: "\<exists>evs. fst (loop_body example_builtins scripted_session (Line (ustr ''alerts CA'')) ?s) =
      CallTool (ustr ''get_alerts'') [(ustr ''state'', JStr (ustr ''CA''))] # evs"
    using repl_commands [OF a(1,2,3), of scripted_session ?s] a(4) unfolding a(5) by blast
  have 3: "loop_body example_builtins scripted_session (Line (ustr ''forecast'')) ?s =
           ([Print unknown_command], Continue, ?s)"
    using repl_commands [OF u(1,2,3), of scripted_session ?s] u(4,5) by blast
  from 1 2 3 show ?thesis by blast
qed

text \<open>
  The claim as written asks for the usage message on an \<open>alerts\<close> line with two
  further tokens; the client calls the tool with both.
\<close>

theorem alerts_arity_counterexample:
  "py_split (ustr ''alerts CA NY'') = [ustr ''alerts'', ustr ''CA'', ustr ''NY''] \<and>
   loop_body example_builtins scripted_session (Line (ustr ''alerts CA NY''))
     [Inr [TextContent alerts_guidance]] =
     ([CallTool (ustr ''get_alerts'') [(ustr ''state'', JStr (ustr ''CA NY''))],
       Print alerts_guidance],
      Continue, [])"
  by (simp add: client_eval)

lemma quit_is_ascii: "map ascii_lower q = ustr ''quit'' \<Longrightarrow> is_ascii q"
proof -
  assume h: "map ascii_lower q = ustr ''quit''"
  have "\<And>c. ascii_lower c < 128 \<Longrightarrow> c < 128"
    by (simp add: ascii_lower_def split: if_splits)
  moreover from h have "\<forall>c\<in>set q. ascii_lower c < 128"
  proof -
    have "\<forall>x\<in>set (map ascii_lower q). x < 128"
      unfolding h by (simp add: ustr_def)
    then show ?thesis by simp
  qed
  ultimately show ?thesis
    by (auto simp: is_ascii_def list_all_iff)
qed

lemma loop_body_quit:
  assumes "map ascii_lower (py_strip l) = ustr ''quit''"
  shows "loop_body bi call (Line l) s = ([], Break, s)"
proof -
  from assms have "is_ascii (py_strip l)"
    by (rule quit_is_ascii)
  with assms have "py_lower bi (py_strip l) = ustr ''quit''"
    by (simp add: py_lower_def)
  moreover from assms have "py_strip l \<noteq> []"
    by (auto simp: ustr_def)
  ultimately show ?thesis
    by (simp add: loop_body_def)
qed

text \<open>
  Claim C8. At the prompt, a line that reads \<open>quit\<close> in any mix of upper and lower case
  (blanks around it are stripped) ends the loop with no event after the prompt, so no
  tool call, and leaves the session as it was. A line that is empty once stripped does
  nothing: no event, no change of the session, and the loop prompts again.
\<close>

theorem quit_and_empty_line:
  "(map ascii_lower (py_strip l) = ustr ''quit'' \<longrightarrow>
      loop_body bi call (Line l) s = ([], Break, s) \<and>
      main_loop bi call (Line l # rest) s = ([Prompt], Break, s)) \<and>
   (py_strip l = [] \<longrightarrow>
      loop_body bi call (Line l) s = ([], Continue, s) \<and>
      main_loop bi call (Line l # rest) s =
        (case main_loop bi call rest s of (evs, c, s') \<Rightarrow> (Prompt # evs, c, s')))"
proof (intro conjI impI)
  assume "map ascii_lower (py_strip l) = ustr ''quit''"
  then show q: "loop_body bi call (Line l) s = ([], Break, s)"
    by (rule loop_body_quit)
  then show "main_loop bi call (Line l # rest) s = ([Prompt], Break, s)"
    by simp
next
  assume "py_strip l = []"
  then show e: "loop_body bi call (Line l) s = ([], Continue, s)"
    by (simp add: loop_body_def)
  then show "main_loop bi call (Line l # rest) s =
      (case main_loop bi call rest s of (evs, c, s') \<Rightarrow> (Prompt # evs, c, s'))"
    by simp
qed

theorem quit_and_empty_line_witness:
  "main_loop example_builtins scripted_session
     [Line (ustr '' ''), Line [], Line (ustr ''QuIt ''), Line (ustr ''alerts CA'')]
     [Inr [TextContent (ustr ''ok'')]] =
     ([Prompt, Prompt, Prompt], Break, [Inr [TextContent (ustr ''ok'')]])"
proof -
  let ?s = "[Inr [TextContent (ustr ''ok'')]] :: (exc + content list) list"
  let ?m = "main_loop example_builtins scripted_session"
  have q: "map ascii_lower (py_strip (ustr ''QuIt '')) = ustr ''quit''"
    by (simp add: client_eval)
  have e1: "py_strip (ustr '' '') = []" and e2: "py_strip [] = []"
    by (simp_all add: client_eval)
  have 3: "?m [Line (ustr ''QuIt ''), Line (ustr ''alerts CA'')] ?s = ([Prompt], Break, ?s)"
    using quit_and_empty_line
      [of "ustr ''QuIt ''" example_builtins scripted_session ?s "[Line (ustr ''alerts CA'')]"] q
    by blast
  have 2: "?m [Line [], Line (ustr ''QuIt ''), Line (ustr ''alerts CA'')] ?s =
           ([Prompt, Prompt], Break, ?s)"
    using quit_and_empty_line
      [of "[]" example_builtins scripted_session ?s
          "[Line (ustr ''QuIt ''), Line (ustr ''alerts CA'')]"] e2 3
    by simp
  show ?thesis
    using quit_and_empty_line
      [of "ustr '' ''" example_builtins scripted_session ?s
          "[Line [], Line (ustr ''QuIt ''), Line (ustr ''alerts CA'')]"] e1 2
    by simp
qed

lemma forecast_bad_number:
  assumes "startswith q (ustr ''forecast '')" and "py_split q = [c, a, b]"
    and "float_of_str bi a = Inl m \<or>
         (\<exists>x. float_of_str bi a = Inr x) \<and> float_of_str bi b = Inl m"
  shows "dispatch bi call q s = (Inl (Exception m), [], s)"
proof -
  from assms(1) have "\<not> startswith q (ustr ''alerts '')"
    using alerts_not_forecast by blast
  with assms show ?thesis
    by (auto simp: dispatch_def parse_float_def)
qed

text \<open>
  Claim C7. On a line that is neither empty nor \<open>quit\<close>, whenever the dispatch raises an
  exception of class \<open>Exception\<close> with the text \<open>m\<close>, the iteration prints
  \<open>Error: m\<close> after the events of the dispatch and the loop goes on with the next
  prompt and the rest of the input. This is so when a token of a \<open>forecast\<close> line is
  not a number: \<open>float\<close> raises and its text is printed, with no tool call. The
  iteration of such a line never ends the loop by \<open>break\<close>; it leaves the loop only
  when the dispatch raises what \<open>except Exception\<close> does not catch, such as a
  \<open>KeyboardInterrupt\<close>.
\<close>

theorem dispatch_error_caught:
  assumes "q = py_strip l" and "q \<noteq> []" and "py_lower bi q \<noteq> ustr ''quit''"
  shows "(\<forall>m evs s'. dispatch bi call q s = (Inl (Exception m), evs, s') \<longrightarrow>
            loop_body bi call (Line l) s =
              (evs @ [Print (ustr ''Error: '' @ m)], Continue, s') \<and>
            main_loop bi call (Line l # rest) s =
              (case main_loop bi call rest s' of
                 (evs', c, s'') \<Rightarrow>
                   (Prompt # evs @ Print (ustr ''Error: '' @ m) # evs', c, s''))) \<and>
         (\<forall>c a b m. startswith q (ustr ''forecast '') \<and> py_split q = [c, a, b] \<and>
            (float_of_str bi a = Inl m \<or>
             (\<exists>x. float_of_str bi a = Inr x) \<and> float_of_str bi b = Inl m) \<longrightarrow>
            loop_body bi call (Line l) s = ([Print (ustr ''Error: '' @ m)], Continue, s)) \<and>
         (\<forall>evs c s'. loop_body bi call (Line l) s = (evs, c, s') \<and> c \<noteq> Continue \<longrightarrow>
            c = Propagate \<and> dispatch bi call q s = (Inl BaseException, evs, s'))"
proof (intro conjI allI impI)
  fix evs c s'
  assume "loop_body bi call (Line l) s = (evs, c, s') \<and> c \<noteq> Continue"
  with assms show "c = Propagate"
    and "dispatch bi call q s = (Inl BaseException, evs, s')"
    by (auto simp: loop_body_def split: prod.splits sum.splits exc.splits)
next
  fix m evs s'
  assume d: "dispatch bi call q s = (Inl (Exception m), evs, s')"
  with assms show b: "loop_body bi call (Line l) s =
      (evs @ [Print (ustr ''Error: '' @ m)], Continue, s')"
    by (simp add: loop_body_def)
  then show "main_loop bi call (Line l # rest) s =
      (case main_loop bi call rest s' of
         (evs', c, s'') \<Rightarrow> (Prompt # evs @ Print (ustr ''Error: '' @ m) # evs', c, s''))"
    by (simp split: prod.splits)
next
  fix c a b m
  assume "startswith q (ustr ''forecast '') \<and> py_split q = [c, a, b] \<and>
    (float_of_str bi a = Inl m \<or>
     (\<exists>x. float_of_str bi a = Inr x) \<and> float_of_str bi b = Inl m)"
  then have "dispatch bi call q s = (Inl (Exception m), [], s)"
    by (auto intro: forecast_bad_number)
  with assms show "loop_body bi call (Line l) s =
      ([Print (ustr ''Error: '' @ m)], Continue, s)"
    by (simp add: loop_body_def)
qed

theorem dispatch_error_caught_witness:
  "main_loop example_builtins scripted_session
     [Line (ustr ''forecast 12 x''), Line (ustr ''alerts CA'')]
     [Inl (Exception (ustr ''timed out''))] =
     ([Prompt,
       Print (ustr ''Error: could not convert string to float: '' @ [39] @ ustr ''x'' @ [39]),
       Prompt,
       CallTool (ustr ''get_alerts'') [(ustr ''state'', JStr (ustr ''CA''))],
       Print (ustr ''Error: timed out''),
       Prompt],
      Break, [])"
proof -
  let ?s = "[Inl (Exception (ustr ''timed out''))] :: (exc + content list) list"
  let ?m = "ustr ''could not convert string to float: '' @ [39] @ ustr ''x'' @ [39]"
  let ?call = "CallTool (ustr ''get_alerts'') [(ustr ''state'', JStr (ustr ''CA'') :: int json)]"
  have a: "ustr ''alerts CA'' = py_strip (ustr ''alerts CA'')"
    "ustr ''alerts CA'' \<noteq> []"
    "py_lower example_builtins (ustr ''alerts CA'') \<noteq> ustr ''quit''"
    by (simp_all add: client_eval)
  have da: "dispatch example_builtins scripted_session (ustr ''alerts CA'') ?s =
            (Inl (Exception (ustr ''timed out'')), [?call], [])"
    by (simp add: client_eval)
  have f: "ustr ''forecast 12 x'' = py_strip (ustr ''forecast 12 x'')"
    "ustr ''forecast 12 x'' \<noteq> []"
    "py_lower example_builtins (ustr ''forecast 12 x'') \<noteq> ustr ''quit''"
    by (simp_all add: client_eval)
  have df: "dispatch example_builtins scripted_session (ustr ''forecast 12 x'') ?s =
            (Inl (Exception ?m), [], ?s)"
    by (simp add: client_eval)
  have e: "main_loop example_builtins scripted_session [] ([] :: (exc + content list) list) =
           ([Prompt], Break, [])"
    by simp
  have "main_loop example_builtins scripted_session [Line (ustr ''alerts CA'')] ?s =
          (case main_loop example_builtins scripted_session [] [] of
             (evs', c, s'') \<Rightarrow>
               (Prompt # [?call] @ Print (ustr ''Error: '' @ ustr ''timed out'') # evs', c, s''))"
    using dispatch_error_caught [OF a, of scripted_session ?s "[]"] da by blast
  then have 2: "main_loop example_builtins scripted_session [Line (ustr ''alerts CA'')] ?s =
           ([Prompt, ?call, Print (ustr ''Error: timed out''), Prompt], Break, [])"
    unfolding e by (simp del: main_loop.simps add: ustr_def)
  have "main_loop example_builtins scripted_session
             [Line (ustr ''forecast 12 x''), Line (ustr ''alerts CA'')] ?s =
          (case main_loop example_builtins scripted_session [Line (ustr ''alerts CA'')] ?s of
             (evs', c, s'') \<Rightarrow> (Prompt # [] @ Print (ustr ''Error: '' @ ?m) # evs', c, s''))"
    using dispatch_error_caught [OF f, of scripted_session ?s "[Line (ustr ''alerts CA'')]"] df
    by blast
  then show ?thesis
    unfolding 2 by (simp del: main_loop.simps add: ustr_def)
qed

end
